theory Spec2Isabelle
  imports Main
begin

section \<open>The declared resources\<close>

text \<open>
  The program is one constructor, \<^verbatim>\<open>CdkProjectStack.__init__\<close>, that registers resources
  under the stack it builds. Each resource is a record of the properties the source passes
  to its constructor; the stack is the state threaded through the constructor calls.
  Resources that are changed after their creation (the two security groups, the role) are
  kept in the stack and referred to by their construct id, so that a later change is seen by
  every resource that was given the object before.
\<close>

subsection \<open>Values resolved outside the declaration\<close>

text \<open>
  The keyword arguments of the stack determine the environment it is synthesized for. The
  values that the framework fills in from that environment (the zones on offer, the
  partition, region and account of an ARN, the physical name and the attributes of a
  resource) are not computed by this repository: they are parameters of the model.

  The physical name of a resource is the name it is deployed under. Such a name is made of
  letters, digits and hyphens and of nothing else; the type \<open>resource_name\<close> holds these
  names, so a name with any other character is not a value the declaration can read from
  \<^verbatim>\<open>rds_instance.instance_identifier\<close>.
\<close>

definition name_char :: "char \<Rightarrow> bool" where
  "name_char c =
     ((48 \<le> (of_char c :: nat) \<and> (of_char c :: nat) \<le> 57)
      \<or> (65 \<le> (of_char c :: nat) \<and> (of_char c :: nat) \<le> 90)
      \<or> (97 \<le> (of_char c :: nat) \<and> (of_char c :: nat) \<le> 122)
      \<or> c = CHR ''-'')"

typedef resource_name = "{s :: string. list_all name_char s}"
  morphisms name_text ResourceName
  by (rule exI [of _ "[]"]) simp

record Environment =
  env_availability_zones :: "string list"
  env_partition :: string
  env_region :: string
  env_account :: string
  physical_name :: "string \<Rightarrow> resource_name"
  attribute_value :: "string \<Rightarrow> string \<Rightarrow> string"

text \<open>What a constructor raises: the construct \<open>id\<close> found no subnet to be placed in.\<close>

datatype error = NoSubnets string

subsection \<open>Network and traffic policies\<close>

datatype SubnetType = PUBLIC | PRIVATE_WITH_EGRESS | PRIVATE_ISOLATED

text \<open>A subnet is known by its tier and its zone.\<close>

record Vpc =
  vpc_id :: string
  max_azs :: nat
  vpc_availability_zones :: "string list"
  subnet_configuration :: "SubnetType list"
  vpc_subnets :: "(SubnetType \<times> string) list"
  vpc_cidr_block :: string

datatype Protocol = TCP | UDP

record Port =
  protocol :: Protocol
  from_port :: nat
  to_port :: nat

definition tcp :: "nat \<Rightarrow> Port" where
  "tcp p = \<lparr>protocol = TCP, from_port = p, to_port = p\<rparr>"

text \<open>A peer is an address range or another security group (by construct id).\<close>

datatype Peer = CidrIPv4 string | SecurityGroupPeer string

definition any_ipv4 :: Peer where
  "any_ipv4 = CidrIPv4 ''0.0.0.0/0''"

definition ipv4 :: "string \<Rightarrow> Peer" where
  "ipv4 cidr = CidrIPv4 cidr"

fun is_cidr :: "Peer \<Rightarrow> bool" where
  "is_cidr (CidrIPv4 c) = True"
| "is_cidr (SecurityGroupPeer g) = False"

record IngressRule =
  peer :: Peer
  connection :: Port
  rule_description :: string

record SecurityGroup =
  sg_id :: string
  sg_vpc :: string
  sg_description :: string
  allow_all_outbound :: bool
  ingress_rules :: "IngressRule list"

subsection \<open>Compute and database\<close>

datatype MachineImage = LatestAmazonLinux2

record Instance =
  instance_id :: string
  instance_type :: string
  machine_image :: MachineImage
  instance_vpc :: string
  instance_subnet :: "SubnetType \<times> string"
  security_group :: string
  instance_role :: string
  instance_private_ip :: string

datatype InstanceClass = T2 | T3 | T4G | M5 | R5

text \<open>The sizes of the framework's scale up to \<open>XLARGE\<close>, in its order, smallest first.\<close>

datatype InstanceSize = NANO | MICRO | SMALL | MEDIUM | LARGE | XLARGE






fun class_name :: "InstanceClass \<Rightarrow> string" where
  "class_name T2 = ''t2''"
| "class_name T3 = ''t3''"
| "class_name T4G = ''t4g''"
| "class_name M5 = ''m5''"
| "class_name R5 = ''r5''"

fun size_name :: "InstanceSize \<Rightarrow> string" where
  "size_name NANO = ''nano''"
| "size_name MICRO = ''micro''"
| "size_name SMALL = ''small''"
| "size_name MEDIUM = ''medium''"
| "size_name LARGE = ''large''"
| "size_name XLARGE = ''xlarge''"

text \<open>\<^verbatim>\<open>ec2.InstanceType(name)\<close> and \<^verbatim>\<open>ec2.InstanceType.of(class, size)\<close>.\<close>

definition InstanceType :: "string \<Rightarrow> string" where
  "InstanceType name = name"

definition InstanceType_of :: "InstanceClass \<Rightarrow> InstanceSize \<Rightarrow> string" where
  "InstanceType_of c s = InstanceType (class_name c @ ''.'' @ size_name s)"

datatype MysqlEngineVersion = VER_5_7_44 | VER_8_0_42 | VER_8_0_43 | VER_8_4_6

datatype DatabaseInstanceEngine = Mysql MysqlEngineVersion | Postgres string

definition mysql :: "MysqlEngineVersion \<Rightarrow> DatabaseInstanceEngine" where
  "mysql version = Mysql version"

datatype StorageType = STANDARD | GP2 | GP3 | IO1

datatype RemovalPolicy = DESTROY | RETAIN | SNAPSHOT

record DatabaseInstance =
  db_id :: string
  engine :: DatabaseInstanceEngine
  db_instance_type :: string
  db_vpc :: string
  security_groups :: "string list"
  multi_az :: bool
  allocated_storage :: nat
  storage_type :: StorageType
  deletion_protection :: bool
  removal_policy :: RemovalPolicy
  instance_identifier :: string
  instance_arn :: string
  db_instance_endpoint_address :: string

subsection \<open>Automation identity and schedules\<close>

datatype Principal = ServicePrincipal string | AccountPrincipal string | AnyPrincipal

record PolicyStatement =
  actions :: "string list"
  resources :: "string list"

record Role =
  role_id :: string
  assumed_by :: Principal
  policy_statements :: "PolicyStatement list"
  role_arn :: string

record FlexibleTimeWindowProperty =
  mode :: string

record TargetProperty =
  arn :: string
  target_role_arn :: string
  input :: string

record CfnSchedule =
  schedule_id :: string
  flexible_time_window :: FlexibleTimeWindowProperty
  schedule_expression :: string
  target :: TargetProperty
  description :: string

subsection \<open>The stack\<close>

record Stack =
  stack_scope :: string
  stack_id :: string
  stack_env :: Environment
  stack_vpcs :: "Vpc list"
  stack_security_groups :: "SecurityGroup list"
  stack_instances :: "Instance list"
  stack_database_instances :: "DatabaseInstance list"
  stack_roles :: "Role list"
  stack_schedules :: "CfnSchedule list"
  stack_tags :: "(string \<times> string \<times> string) list"
  stack_outputs :: "(string \<times> string) list"

text \<open>\<^verbatim>\<open>super().__init__(scope, construct_id, **kwargs)\<close>: an empty stack in its environment.\<close>

definition Stack_init :: "string \<Rightarrow> string \<Rightarrow> Environment \<Rightarrow> Stack" where
  "Stack_init scope construct_id kwargs =
     \<lparr>stack_scope = scope, stack_id = construct_id, stack_env = kwargs,
      stack_vpcs = [], stack_security_groups = [], stack_instances = [],
      stack_database_instances = [], stack_roles = [], stack_schedules = [],
      stack_tags = [], stack_outputs = []\<rparr>"

section \<open>The constructors the declaration calls\<close>

text \<open>
  \<^verbatim>\<open>ec2.Vpc(self, id, max_azs=n)\<close>. With no subnet configuration given the network gets the
  default one, a public and a private tier (the source's comment says so). \<^verbatim>\<open>max_azs\<close> is an
  upper bound: the network takes the first \<open>n\<close> of the zones the stack's environment offers,
  and gets one subnet of each tier in each zone it takes. With no zone it has no subnet.
\<close>

definition ec2_Vpc :: "string \<Rightarrow> nat \<Rightarrow> Stack \<Rightarrow> Vpc \<times> Stack" where
  "ec2_Vpc cid n self =
     (let zones = take n (env_availability_zones (stack_env self));
          tiers = [PUBLIC, PRIVATE_WITH_EGRESS];
          v = \<lparr>vpc_id = cid, max_azs = n,
               vpc_availability_zones = zones,
               subnet_configuration = tiers,
               vpc_subnets = List.product tiers zones,
               vpc_cidr_block = ''10.0.0.0/16''\<rparr>
      in (v, self\<lparr>stack_vpcs := stack_vpcs self @ [v]\<rparr>))"

text \<open>
  The subnets a resource is placed in when the declaration names none: the private ones
  if the network has any, else the isolated ones if it has any, else the public ones.
\<close>

definition subnets_of_type :: "SubnetType \<Rightarrow> Vpc \<Rightarrow> (SubnetType \<times> string) list" where
  "subnets_of_type t v = filter (\<lambda>s. fst s = t) (vpc_subnets v)"

definition select_subnets :: "Vpc \<Rightarrow> (SubnetType \<times> string) list" where
  "select_subnets v =
     (if subnets_of_type PRIVATE_WITH_EGRESS v = []
      then (if subnets_of_type PRIVATE_ISOLATED v = []
            then subnets_of_type PUBLIC v
            else subnets_of_type PRIVATE_ISOLATED v)
      else subnets_of_type PRIVATE_WITH_EGRESS v)"

text \<open>\<^verbatim>\<open>ec2.SecurityGroup(self, id, vpc=, description=, allow_all_outbound=)\<close>: no ingress rule yet.
  The result is the construct id, the handle later calls use.\<close>

definition ec2_SecurityGroup :: "string \<Rightarrow> Vpc \<Rightarrow> string \<Rightarrow> bool \<Rightarrow> Stack \<Rightarrow> string \<times> Stack" where
  "ec2_SecurityGroup cid v descr outbound self =
     (let g = \<lparr>sg_id = cid, sg_vpc = vpc_id v, sg_description = descr,
               allow_all_outbound = outbound, ingress_rules = []\<rparr>
      in (cid, self\<lparr>stack_security_groups := stack_security_groups self @ [g]\<rparr>))"

text \<open>\<^verbatim>\<open>sg.add_ingress_rule(peer, connection, description)\<close> changes the group in place.\<close>

definition add_ingress_rule :: "string \<Rightarrow> Peer \<Rightarrow> Port \<Rightarrow> string \<Rightarrow> Stack \<Rightarrow> Stack" where
  "add_ingress_rule sg p c descr self =
     self\<lparr>stack_security_groups :=
       map (\<lambda>g. if sg_id g = sg
                then g\<lparr>ingress_rules := ingress_rules g
                        @ [\<lparr>peer = p, connection = c, rule_description = descr\<rparr>]\<rparr>
                else g)
           (stack_security_groups self)\<rparr>"

text \<open>
  \<^verbatim>\<open>ec2.Instance(self, id, instance_type=, machine_image=, vpc=, security_group=)\<close>. The
  instance goes into the first of the selected subnets; when the network has none the
  constructor raises. With no role given, the constructor declares a role of its own for
  the instance, trusted by \<open>ec2.amazonaws.com\<close> and with no permission.
\<close>

definition ec2_Instance ::
  "string \<Rightarrow> string \<Rightarrow> MachineImage \<Rightarrow> Vpc \<Rightarrow> string \<Rightarrow> Stack \<Rightarrow> error + Instance \<times> Stack" where
  "ec2_Instance cid ty img v sg self =
     (case select_subnets v of
        [] \<Rightarrow> Inl (NoSubnets cid)
      | subnet # others \<Rightarrow>
          (let e = stack_env self;
               r = \<lparr>role_id = cid @ ''/InstanceRole'',
                    assumed_by = ServicePrincipal ''ec2.amazonaws.com'',
                    policy_statements = [],
                    role_arn = attribute_value e (cid @ ''/InstanceRole'') ''Arn''\<rparr>;
               i = \<lparr>instance_id = cid, instance_type = ty, machine_image = img,
                    instance_vpc = vpc_id v, instance_subnet = subnet, security_group = sg,
                    instance_role = role_id r,
                    instance_private_ip = attribute_value e cid ''PrivateIp''\<rparr>
           in Inr (i, self\<lparr>stack_instances := stack_instances self @ [i],
                           stack_roles := stack_roles self @ [r]\<rparr>)))"

text \<open>
  \<^verbatim>\<open>rds.DatabaseInstance(self, id, ...)\<close>. The identifier of the instance is its physical name;
  its ARN is the framework's rendering
  \<^verbatim>\<open>arn:<partition>:rds:<region>:<account>:db:<identifier>\<close>, and its instance class is
  rendered with the prefix \<open>db.\<close> before the instance type.
\<close>

definition format_db_arn :: "Environment \<Rightarrow> string \<Rightarrow> string" where
  "format_db_arn e ident =
     ''arn:'' @ env_partition e @ '':rds:'' @ env_region e @ '':'' @ env_account e
       @ '':db:'' @ ident"

definition rds_DatabaseInstance ::
  "string \<Rightarrow> DatabaseInstanceEngine \<Rightarrow> string \<Rightarrow> Vpc \<Rightarrow> string list \<Rightarrow> bool \<Rightarrow> nat
     \<Rightarrow> StorageType \<Rightarrow> bool \<Rightarrow> RemovalPolicy \<Rightarrow> Stack \<Rightarrow> DatabaseInstance \<times> Stack" where
  "rds_DatabaseInstance cid eng ty v sgs maz storage sty prot removal self =
     (let e = stack_env self;
          d = \<lparr>db_id = cid, engine = eng, db_instance_type = ty, db_vpc = vpc_id v,
               security_groups = sgs, multi_az = maz, allocated_storage = storage,
               storage_type = sty, deletion_protection = prot, removal_policy = removal,
               instance_identifier = name_text (physical_name e cid),
               instance_arn = format_db_arn e (name_text (physical_name e cid)),
               db_instance_endpoint_address = attribute_value e cid ''Endpoint.Address''\<rparr>
      in (d, self\<lparr>stack_database_instances := stack_database_instances self @ [d]\<rparr>))"


text \<open>\<^verbatim>\<open>iam.Role(self, id, assumed_by=)\<close>: no permission yet; the result is the handle.\<close>

definition iam_Role :: "string \<Rightarrow> Principal \<Rightarrow> Stack \<Rightarrow> string \<times> Stack" where
  "iam_Role cid p self =
     (let r = \<lparr>role_id = cid, assumed_by = p, policy_statements = [],
               role_arn = attribute_value (stack_env self) cid ''Arn''\<rparr>
      in (cid, self\<lparr>stack_roles := stack_roles self @ [r]\<rparr>))"

definition add_to_policy :: "string \<Rightarrow> PolicyStatement \<Rightarrow> Stack \<Rightarrow> Stack" where
  "add_to_policy role stmt self =
     self\<lparr>stack_roles :=
       map (\<lambda>r. if role_id r = role
                then r\<lparr>policy_statements := policy_statements r @ [stmt]\<rparr> else r)
           (stack_roles self)\<rparr>"

text \<open>Reading \<^verbatim>\<open>scheduler_role.role_arn\<close> through the handle.\<close>

definition role_arn_of :: "string \<Rightarrow> Stack \<Rightarrow> string" where
  "role_arn_of role self =
     (case find (\<lambda>r. role_id r = role) (stack_roles self) of
        Some r \<Rightarrow> role_arn r | None \<Rightarrow> [])"

definition scheduler_CfnSchedule ::
  "string \<Rightarrow> FlexibleTimeWindowProperty \<Rightarrow> string \<Rightarrow> TargetProperty \<Rightarrow> string
     \<Rightarrow> Stack \<Rightarrow> CfnSchedule \<times> Stack" where
  "scheduler_CfnSchedule cid window expr tgt descr self =
     (let s = \<lparr>schedule_id = cid, flexible_time_window = window, schedule_expression = expr,
               target = tgt, description = descr\<rparr>
      in (s, self\<lparr>stack_schedules := stack_schedules self @ [s]\<rparr>))"

text \<open>\<^verbatim>\<open>Tags.of(construct).add(key, value)\<close> and \<^verbatim>\<open>CfnOutput(self, id, value=)\<close>.\<close>

definition Tags_add :: "string \<Rightarrow> string \<Rightarrow> string \<Rightarrow> Stack \<Rightarrow> Stack" where
  "Tags_add cid k v self = self\<lparr>stack_tags := stack_tags self @ [(cid, k, v)]\<rparr>"

definition CfnOutput :: "string \<Rightarrow> string \<Rightarrow> Stack \<Rightarrow> Stack" where
  "CfnOutput cid v self = self\<lparr>stack_outputs := stack_outputs self @ [(cid, v)]\<rparr>"

section \<open>The declaration\<close>

text \<open>
  The payload of a schedule, the source's
  \<^verbatim>\<open>f'{{"DbInstanceIdentifier": "{rds_instance.instance_identifier}"}}'\<close>:
  the identifier is pasted between two fixed pieces of text.
\<close>

definition payload_prefix :: string where
  \<open>payload_prefix = ''{"DbInstanceIdentifier": "''\<close>

definition payload_suffix :: string where
  \<open>payload_suffix = ''"}''\<close>

definition format_input :: "string \<Rightarrow> string" where
  "format_input ident = payload_prefix @ ident @ payload_suffix"

text \<open>
  The body of \<^verbatim>\<open>__init__\<close>, statement by statement. The result is the finished stack, or
  what the constructor of the compute instance raised; the statements after it are then
  not run. \<^verbatim>\<open>target_payload\<close> is the dictionary the source builds at lines 92 to 94; nothing
  after it reads it.
\<close>

definition CdkProjectStack :: "string \<Rightarrow> string \<Rightarrow> Environment \<Rightarrow> error + Stack" where
  "CdkProjectStack scope construct_id kwargs =
    (let self = Stack_init scope construct_id kwargs;
         (vpc, self) = ec2_Vpc ''Vpc'' 2 self;
         (sg, self) = ec2_SecurityGroup ''InstanceSecurityGroup'' vpc ''Allow SSH access'' True self;
         self = add_ingress_rule sg any_ipv4 (tcp 22) ''allow SSH'' self
     in case ec2_Instance ''Ec2Instance'' (InstanceType ''t3.micro'') LatestAmazonLinux2 vpc sg self of
          Inl raised \<Rightarrow> Inl raised
        | Inr (instance, self) \<Rightarrow>
           (let (rds_sg, self) =
                   ec2_SecurityGroup ''RdsSecurityGroup'' vpc ''Allow database access'' True self;
                (rds_instance, self) =
                   rds_DatabaseInstance ''RdsInstance'' (mysql VER_8_0_43) (InstanceType_of T3 MICRO)
                     vpc [rds_sg] False 20 GP2 False DESTROY self;
                (scheduler_role, self) =
                   iam_Role ''SchedulerRole'' (ServicePrincipal ''scheduler.amazonaws.com'') self;
                self = add_to_policy scheduler_role
                         \<lparr>actions = [''rds:StartDBInstance'', ''rds:StopDBInstance''],
                          resources = [instance_arn rds_instance]\<rparr> self;
                target_payload = [(''DbInstanceIdentifier'', instance_identifier rds_instance)];
                (stop_schedule, self) =
                   scheduler_CfnSchedule ''StopRdsSchedule'' \<lparr>mode = ''OFF''\<rparr>
                     ''cron(30 6 * * ? *)''
                     \<lparr>arn = ''arn:aws:scheduler:::aws-sdk:rds:stopDBInstance'',
                      target_role_arn = role_arn_of scheduler_role self,
                      input = format_input (instance_identifier rds_instance)\<rparr>
                     ''Stops RDS instance at 6 PM UTC'' self;
                (start_schedule, self) =
                   scheduler_CfnSchedule ''StartRdsSchedule'' \<lparr>mode = ''OFF''\<rparr>
                     ''cron(30 22 ? * MON-FRI *)''
                     \<lparr>arn = ''arn:aws:scheduler:::aws-sdk:rds:startDBInstance'',
                      target_role_arn = role_arn_of scheduler_role self,
                      input = format_input (instance_identifier rds_instance)\<rparr>
                     ''Starts RDS instance at 8 AM UTC (Mon-Fri)'' self;
                self = Tags_add (instance_id instance) ''Name'' ''cdk-ec2-instance'' self;
                self = Tags_add (db_id rds_instance) ''Name'' ''cdk-rds-instance'' self;
                self = add_ingress_rule rds_sg (SecurityGroupPeer sg) (tcp 3306)
                         ''Allow MySQL access from EC2 instance'' self;
                self = CfnOutput ''DBEndpoint'' (db_instance_endpoint_address rds_instance) self;
                self = CfnOutput ''EC2InstancePrivateIP'' (instance_private_ip instance) self
            in Inr self))"

section \<open>Reading the finished stack\<close>

text \<open>The groups attached to the database and to the compute instance, looked up by the
  ids those resources hold.\<close>

definition database_security_groups :: "Stack \<Rightarrow> SecurityGroup list" where
  "database_security_groups st =
     concat (map (\<lambda>d. concat (map (\<lambda>gid. filter (\<lambda>g. sg_id g = gid) (stack_security_groups st))
                                   (security_groups d)))
                 (stack_database_instances st))"

definition compute_security_groups :: "Stack \<Rightarrow> SecurityGroup list" where
  "compute_security_groups st =
     concat (map (\<lambda>i. filter (\<lambda>g. sg_id g = security_group i) (stack_security_groups st))
                 (stack_instances st))"

definition database_ingress :: "Stack \<Rightarrow> IngressRule list" where
  "database_ingress st = concat (map ingress_rules (database_security_groups st))"

definition compute_ingress :: "Stack \<Rightarrow> IngressRule list" where
  "compute_ingress st = concat (map ingress_rules (compute_security_groups st))"

text \<open>The rule the source keeps commented out at lines 49 to 53, for a given network.\<close>

definition vpc_wide_rule :: "Vpc \<Rightarrow> IngressRule" where
  "vpc_wide_rule v = \<lparr>peer = ipv4 (vpc_cidr_block v), connection = tcp 5432,
                       rule_description = ''Allow connection from within VPC''\<rparr>"

definition zone_count :: "Vpc \<Rightarrow> nat" where
  "zone_count v = length (vpc_availability_zones v)"

text \<open>A network contains a tier when it has a subnet of that tier.\<close>

definition has_tier :: "SubnetType \<Rightarrow> Vpc \<Rightarrow> bool" where
  "has_tier t v = (t \<in> set (map fst (vpc_subnets v)))"

text \<open>The automation identity: the role declared as \<open>SchedulerRole\<close>.\<close>

definition scheduler_roles :: "Stack \<Rightarrow> Role list" where
  "scheduler_roles st = filter (\<lambda>r. role_id r = ''SchedulerRole'') (stack_roles st)"

definition schedule_role_arns :: "Stack \<Rightarrow> string list" where
  "schedule_role_arns st = map (\<lambda>s. target_role_arn (target s)) (stack_schedules st)"

text \<open>The networks and the database instances of a run of the constructor: none when it
  raised.\<close>

definition networks :: "error + Stack \<Rightarrow> Vpc list" where
  "networks r = (case r of Inl raised \<Rightarrow> [] | Inr st \<Rightarrow> stack_vpcs st)"


definition spans_two_zones :: "Vpc \<Rightarrow> bool" where
  "spans_two_zones v = (2 \<le> zone_count v)"

definition schedule_inputs :: "Stack \<Rightarrow> string list" where
  "schedule_inputs st = map (\<lambda>s. input (target s)) (stack_schedules st)"

definition schedule_actions :: "Stack \<Rightarrow> string list" where
  "schedule_actions st = map (\<lambda>s. arn (target s)) (stack_schedules st)"

text \<open>The identifier a payload carries: what stands between the two fixed pieces of text
  of \<open>format_input\<close>, when the payload has that shape.\<close>

definition embedded_identifier :: "string \<Rightarrow> string option" where
  "embedded_identifier s =
     (let p = length payload_prefix; q = length payload_suffix in
      if p + q \<le> length s \<and> take p s = payload_prefix \<and> drop (length s - q) s = payload_suffix
      then Some (take (length s - p - q) (drop p s)) else None)"

section \<open>Trigger expressions\<close>

text \<open>
  Modelled from the spec: the scheduling service that evaluates a trigger expression is not
  part of the repository. The spec's glossary gives the fields of a cron expression (minute,
  hour, day of month, month, day of week; the expressions of the source carry a sixth, the
  year) and the claims read them under the standard semantics: \<open>*\<close> and \<open>?\<close> accept every
  value, a number accepts itself, \<open>a-b\<close> accepts the values from \<open>a\<close> to \<open>b\<close>, and the days of
  the week are named \<open>SUN\<close> to \<open>SAT\<close> and numbered from 1. Only these forms, the ones the two
  expressions use, are read; any other expression never fires.
\<close>

fun split_on :: "char \<Rightarrow> string \<Rightarrow> string list" where
  "split_on sep [] = [[]]"
| "split_on sep (c # cs) =
     (if c = sep then [] # split_on sep cs
      else (case split_on sep cs of w # ws \<Rightarrow> (c # w) # ws | [] \<Rightarrow> [[c]]))"

definition digit_of :: "char \<Rightarrow> nat option" where
  "digit_of c = (if 48 \<le> (of_char c :: nat) \<and> (of_char c :: nat) \<le> 57
                 then Some (of_char c - 48) else None)"

fun parse_digits :: "nat \<Rightarrow> string \<Rightarrow> nat option" where
  "parse_digits acc [] = Some acc"
| "parse_digits acc (c # cs) =
     (case digit_of c of None \<Rightarrow> None | Some d \<Rightarrow> parse_digits (10 * acc + d) cs)"

definition parse_nat :: "string \<Rightarrow> nat option" where
  "parse_nat s = (if s = [] then None else parse_digits 0 s)"

datatype weekday = SUN | MON | TUE | WED | THU | FRI | SAT

fun weekday_number :: "weekday \<Rightarrow> nat" where
  "weekday_number SUN = 1"
| "weekday_number MON = 2"
| "weekday_number TUE = 3"
| "weekday_number WED = 4"
| "weekday_number THU = 5"
| "weekday_number FRI = 6"
| "weekday_number SAT = 7"

fun workday :: "weekday \<Rightarrow> bool" where
  "workday SUN = False"
| "workday SAT = False"
| "workday d = True"

definition weekday_names :: "(string \<times> nat) list" where
  "weekday_names = [(''SUN'', 1), (''MON'', 2), (''TUE'', 3), (''WED'', 4), (''THU'', 5),
                    (''FRI'', 6), (''SAT'', 7)]"

datatype cron_field = Every | Exactly nat | Between nat nat

definition parse_value :: "string \<Rightarrow> nat option" where
  "parse_value s = (case map_of weekday_names s of Some n \<Rightarrow> Some n | None \<Rightarrow> parse_nat s)"

definition parse_field :: "string \<Rightarrow> cron_field option" where
  "parse_field s =
     (if s = ''*'' \<or> s = ''?'' then Some Every
      else (case split_on CHR ''-'' s of
              [a] \<Rightarrow> map_option Exactly (parse_value a)
            | [a, b] \<Rightarrow> (case parse_value a of None \<Rightarrow> None
                          | Some lo \<Rightarrow> map_option (Between lo) (parse_value b))
            | _ \<Rightarrow> None))"

fun field_matches :: "cron_field \<Rightarrow> nat \<Rightarrow> bool" where
  "field_matches Every n = True"
| "field_matches (Exactly v) n = (n = v)"
| "field_matches (Between lo hi) n = (lo \<le> n \<and> n \<le> hi)"

record calendar_day =
  day_of_month :: nat
  month :: nat
  day_of_week :: weekday
  year :: nat

definition parse_cron :: "string \<Rightarrow> cron_field list option" where
  "parse_cron s =
     (if 6 \<le> length s \<and> take 5 s = ''cron('' \<and> last s = CHR '')''
      then (case those (map parse_field (split_on CHR '' '' (butlast (drop 5 s)))) of
              Some fs \<Rightarrow> if length fs = 6 then Some fs else None
            | None \<Rightarrow> None)
      else None)"

text \<open>Whether the expression fires on day \<open>d\<close> at the time \<open>t\<close>, an (hour, minute) pair.\<close>

definition fires :: "string \<Rightarrow> calendar_day \<Rightarrow> nat \<times> nat \<Rightarrow> bool" where
  "fires expr d t =
     (case parse_cron expr of
        Some [mi, ho, dm, mo, dw, yr] \<Rightarrow>
          field_matches mi (snd t) \<and> field_matches ho (fst t) \<and>
          field_matches dm (day_of_month d) \<and> field_matches mo (month d) \<and>
          field_matches dw (weekday_number (day_of_week d)) \<and> field_matches yr (year d)
      | _ \<Rightarrow> False)"

text \<open>The times of day \<open>d\<close> at which the expression fires, among its 24 times 60 minutes.\<close>

definition firings :: "string \<Rightarrow> calendar_day \<Rightarrow> (nat \<times> nat) list" where
  "firings expr d = filter (fires expr d) (List.product [0..<24] [0..<60])"

text \<open>
  The time of day a description names: the first number followed by the word \<open>AM\<close> or
  \<open>PM\<close>, read on the 24-hour clock.
\<close>

fun clock_in_words :: "string list \<Rightarrow> (nat \<times> nat) option" where
  "clock_in_words (n # p # ws) =
     (case parse_nat n of
        Some k \<Rightarrow> if p = ''AM'' then Some (k mod 12, 0)
                  else if p = ''PM'' then Some (k mod 12 + 12, 0)
                  else clock_in_words (p # ws)
      | None \<Rightarrow> clock_in_words (p # ws))"
| "clock_in_words ws = None"

definition described_time :: "string \<Rightarrow> (nat \<times> nat) option" where
  "described_time d = clock_in_words (split_on CHR '' '' d)"

text \<open>For each schedule named \<open>name\<close>: the text of its description, the time that text
  names, and the times at which its expression fires on day \<open>d\<close>.\<close>

definition described_and_fired ::
  "string \<Rightarrow> calendar_day \<Rightarrow> Stack \<Rightarrow> (string \<times> (nat \<times> nat) option \<times> (nat \<times> nat) list) list" where
  "described_and_fired name d st =
     map (\<lambda>s. (description s, described_time (description s), firings (schedule_expression s) d))
         (filter (\<lambda>s. schedule_id s = name) (stack_schedules st))"

text \<open>The firings that fall on the time the description names.\<close>

definition fired_as_described :: "string \<Rightarrow> calendar_day \<Rightarrow> Stack \<Rightarrow> (nat \<times> nat) list" where
  "fired_as_described name d st =
     concat (map (\<lambda>s. filter (\<lambda>t. described_time (description s) = Some t)
                               (firings (schedule_expression s) d))
                 (filter (\<lambda>s. schedule_id s = name) (stack_schedules st)))"

section \<open>Payloads as JSON\<close>

text \<open>
  Modelled from the spec: the reader of a payload is the provider's, not the repository's.
  The spec calls the payload a JSON object with string members; this is the JSON grammar
  for such objects. A string runs to the next unescaped double quote; a backslash starts an
  escape; a character below 0x20 may not stand in a string unescaped. The escape
  \<^verbatim>\<open>\u\<close>, which names characters beyond a byte, is not read.
\<close>

definition dquote :: char where
  "dquote = CHR 0x22"

definition backslash :: char where
  "backslash = CHR 0x5C"

definition is_control :: "char \<Rightarrow> bool" where
  "is_control c = ((of_char c :: nat) < 32)"

definition is_ws :: "char \<Rightarrow> bool" where
  "is_ws c = (c = CHR '' '' \<or> c = CHR 0x09 \<or> c = CHR 0x0A \<or> c = CHR 0x0D)"

fun skip_ws :: "string \<Rightarrow> string" where
  "skip_ws [] = []"
| "skip_ws (c # cs) = (if is_ws c then skip_ws cs else c # cs)"

definition unescape :: "char \<Rightarrow> char option" where
  "unescape e =
     (if e = dquote \<or> e = backslash \<or> e = CHR ''/'' then Some e
      else if e = CHR ''b'' then Some (CHR 0x08)
      else if e = CHR ''f'' then Some (CHR 0x0C)
      else if e = CHR ''n'' then Some (CHR 0x0A)
      else if e = CHR ''r'' then Some (CHR 0x0D)
      else if e = CHR ''t'' then Some (CHR 0x09)
      else None)"

text \<open>The characters of a string after its opening quote: the text and what follows the
  closing quote.\<close>

fun json_chars :: "string \<Rightarrow> (string \<times> string) option" where
  "json_chars [] = None"
| "json_chars (c # cs) =
     (if c = dquote then Some ([], cs)
      else if c = backslash then
        (case cs of
           [] \<Rightarrow> None
         | e # cs' \<Rightarrow>
             (case unescape e of
                None \<Rightarrow> None
              | Some d \<Rightarrow> (case json_chars cs' of
                             None \<Rightarrow> None
                           | Some (s, r) \<Rightarrow> Some (d # s, r))))
      else if is_control c then None
      else (case json_chars cs of None \<Rightarrow> None | Some (s, r) \<Rightarrow> Some (c # s, r)))"

definition json_string :: "string \<Rightarrow> (string \<times> string) option" where
  "json_string s =
     (case s of [] \<Rightarrow> None | c # cs \<Rightarrow> if c = dquote then json_chars cs else None)"

text \<open>The members of an object, up to and including its closing brace. The first argument
  bounds the number of members; \<open>parse_json\<close> gives the length of the text, which no
  object exceeds.\<close>

fun json_members :: "nat \<Rightarrow> string \<Rightarrow> ((string \<times> string) list \<times> string) option" where
  "json_members 0 s = None"
| "json_members (Suc n) s =
     (case json_string (skip_ws s) of
        None \<Rightarrow> None
      | Some (k, r1) \<Rightarrow>
          (case skip_ws r1 of
             [] \<Rightarrow> None
           | c # r2 \<Rightarrow>
               if c \<noteq> CHR '':'' then None
               else (case json_string (skip_ws r2) of
                       None \<Rightarrow> None
                     | Some (v, r3) \<Rightarrow>
                         (case skip_ws r3 of
                            [] \<Rightarrow> None
                          | d # r4 \<Rightarrow>
                              if d = CHR ''}'' then Some ([(k, v)], r4)
                              else if d = CHR '','' then
                                (case json_members n r4 of
                                   None \<Rightarrow> None
                                 | Some (ms, r5) \<Rightarrow> Some ((k, v) # ms, r5))
                              else None))))"

definition parse_json :: "string \<Rightarrow> (string \<times> string) list option" where
  "parse_json s =
     (case skip_ws s of
        [] \<Rightarrow> None
      | c # r \<Rightarrow>
          if c \<noteq> CHR ''{'' then None
          else (case skip_ws r of
                  [] \<Rightarrow> None
                | d # r' \<Rightarrow>
                    if d = CHR ''}'' then (if skip_ws r' = [] then Some [] else None)
                    else (case json_members (length s) (d # r') of
                            None \<Rightarrow> None
                          | Some (ms, rest) \<Rightarrow> if skip_ws rest = [] then Some ms else None)))"

text \<open>A character that stands for itself in a JSON string.\<close>

definition plain :: "char \<Rightarrow> bool" where
  "plain c = (c \<noteq> dquote \<and> c \<noteq> backslash \<and> \<not> is_control c)"

definition parsed_inputs :: "Stack \<Rightarrow> (string \<times> string) list option list" where
  "parsed_inputs st = map parse_json (schedule_inputs st)"

section \<open>Example environments\<close>

definition example_env :: Environment where
  "example_env =
     \<lparr>env_availability_zones = [''eu-west-1a'', ''eu-west-1b'', ''eu-west-1c''],
      env_partition = ''aws'', env_region = ''eu-west-1'', env_account = ''123456789012'',
      physical_name = (\<lambda>cid. ResourceName ''cdk-rdsinstance-1a2b3c''),
      attribute_value = (\<lambda>cid a. cid @ ''.'' @ a)\<rparr>"

text \<open>An environment that offers one zone only.\<close>

definition single_zone_env :: Environment where
  "single_zone_env = example_env\<lparr>env_availability_zones := [''eu-west-1a'']\<rparr>"

section \<open>The stack the declaration builds\<close>

lemma CdkProjectStack_raises:
  "env_availability_zones kw = [] \<Longrightarrow>
     CdkProjectStack scope cid kw = Inl (NoSubnets ''Ec2Instance'')"
  by (simp add: CdkProjectStack_def Stack_init_def ec2_Vpc_def ec2_SecurityGroup_def
      add_ingress_rule_def ec2_Instance_def select_subnets_def subnets_of_type_def Let_def)

lemma CdkProjectStack_value:
  assumes "env_availability_zones kw = z # zs"
  shows "CdkProjectStack scope cid kw = Inr
     \<lparr>stack_scope = scope, stack_id = cid, stack_env = kw,
      stack_vpcs =
        [\<lparr>vpc_id = ''Vpc'', max_azs = 2,
          vpc_availability_zones = take 2 (env_availability_zones kw),
          subnet_configuration = [PUBLIC, PRIVATE_WITH_EGRESS],
          vpc_subnets = List.product [PUBLIC, PRIVATE_WITH_EGRESS]
                          (take 2 (env_availability_zones kw)),
          vpc_cidr_block = ''10.0.0.0/16''\<rparr>],
      stack_security_groups =
        [\<lparr>sg_id = ''InstanceSecurityGroup'', sg_vpc = ''Vpc'',
          sg_description = ''Allow SSH access'', allow_all_outbound = True,
          ingress_rules = [\<lparr>peer = CidrIPv4 ''0.0.0.0/0'', connection = tcp 22,
                             rule_description = ''allow SSH''\<rparr>]\<rparr>,
         \<lparr>sg_id = ''RdsSecurityGroup'', sg_vpc = ''Vpc'',
          sg_description = ''Allow database access'', allow_all_outbound = True,
          ingress_rules = [\<lparr>peer = SecurityGroupPeer ''InstanceSecurityGroup'',
                             connection = tcp 3306,
                             rule_description = ''Allow MySQL access from EC2 instance''\<rparr>]\<rparr>],
      stack_instances =
        [\<lparr>instance_id = ''Ec2Instance'', instance_type = ''t3.micro'',
          machine_image = LatestAmazonLinux2, instance_vpc = ''Vpc'',
          instance_subnet = (PRIVATE_WITH_EGRESS, z),
          security_group = ''InstanceSecurityGroup'',
          instance_role = ''Ec2Instance/InstanceRole'',
          instance_private_ip = attribute_value kw ''Ec2Instance'' ''PrivateIp''\<rparr>],
      stack_database_instances =
        [\<lparr>db_id = ''RdsInstance'', engine = Mysql VER_8_0_43, db_instance_type = ''t3.micro'',
          db_vpc = ''Vpc'', security_groups = [''RdsSecurityGroup''], multi_az = False,
          allocated_storage = 20, storage_type = GP2, deletion_protection = False,
          removal_policy = DESTROY,
          instance_identifier = name_text (physical_name kw ''RdsInstance''),
          instance_arn = format_db_arn kw (name_text (physical_name kw ''RdsInstance'')),
          db_instance_endpoint_address = attribute_value kw ''RdsInstance'' ''Endpoint.Address''\<rparr>],
      stack_roles =
        [\<lparr>role_id = ''Ec2Instance/InstanceRole'',
          assumed_by = ServicePrincipal ''ec2.amazonaws.com'',
          policy_statements = [],
          role_arn = attribute_value kw ''Ec2Instance/InstanceRole'' ''Arn''\<rparr>,
         \<lparr>role_id = ''SchedulerRole'', assumed_by = ServicePrincipal ''scheduler.amazonaws.com'',
          policy_statements =
            [\<lparr>actions = [''rds:StartDBInstance'', ''rds:StopDBInstance''],
              resources = [format_db_arn kw (name_text (physical_name kw ''RdsInstance''))]\<rparr>],
          role_arn = attribute_value kw ''SchedulerRole'' ''Arn''\<rparr>],
      stack_schedules =
        [\<lparr>schedule_id = ''StopRdsSchedule'', flexible_time_window = \<lparr>mode = ''OFF''\<rparr>,
          schedule_expression = ''cron(30 6 * * ? *)'',
          target = \<lparr>arn = ''arn:aws:scheduler:::aws-sdk:rds:stopDBInstance'',
                    target_role_arn = attribute_value kw ''SchedulerRole'' ''Arn'',
                    input = format_input (name_text (physical_name kw ''RdsInstance''))\<rparr>,
          description = ''Stops RDS instance at 6 PM UTC''\<rparr>,
         \<lparr>schedule_id = ''StartRdsSchedule'', flexible_time_window = \<lparr>mode = ''OFF''\<rparr>,
          schedule_expression = ''cron(30 22 ? * MON-FRI *)'',
          target = \<lparr>arn = ''arn:aws:scheduler:::aws-sdk:rds:startDBInstance'',
                    target_role_arn = attribute_value kw ''SchedulerRole'' ''Arn'',
                    input = format_input (name_text (physical_name kw ''RdsInstance''))\<rparr>,
          description = ''Starts RDS instance at 8 AM UTC (Mon-Fri)''\<rparr>],
      stack_tags = [(''Ec2Instance'', ''Name'', ''cdk-ec2-instance''),
                    (''RdsInstance'', ''Name'', ''cdk-rds-instance'')],
      stack_outputs = [(''DBEndpoint'', attribute_value kw ''RdsInstance'' ''Endpoint.Address''),
                       (''EC2InstancePrivateIP'', attribute_value kw ''Ec2Instance'' ''PrivateIp'')]\<rparr>"
  using assms
  by (simp add: CdkProjectStack_def Stack_init_def ec2_Vpc_def ec2_SecurityGroup_def
      add_ingress_rule_def ec2_Instance_def select_subnets_def subnets_of_type_def
      rds_DatabaseInstance_def iam_Role_def
      add_to_policy_def role_arn_of_def scheduler_CfnSchedule_def Tags_add_def CfnOutput_def
      any_ipv4_def mysql_def InstanceType_def InstanceType_of_def Let_def filter_map o_def)

lemma built_only_with_zones:
  assumes "CdkProjectStack scope cid kw = Inr st"
  shows "env_availability_zones kw \<noteq> []"
  using assms CdkProjectStack_raises [of kw scope cid] by auto

lemma raised_only_without_zones:
  assumes "CdkProjectStack scope cid kw = Inl raised"
  shows "raised = NoSubnets ''Ec2Instance'' \<and> env_availability_zones kw = []"
proof (cases "env_availability_zones kw")
  case Nil
  from CdkProjectStack_raises [OF Nil, of scope cid] assms Nil show ?thesis by simp
next
  case (Cons z zs)
  from CdkProjectStack_value [OF Cons, of scope cid] assms show ?thesis by simp
qed

lemma stack_vpcs_value:
  assumes "CdkProjectStack scope cid kw = Inr st"
  shows "stack_vpcs st =
     [\<lparr>vpc_id = ''Vpc'', max_azs = 2,
       vpc_availability_zones = take 2 (env_availability_zones kw),
       subnet_configuration = [PUBLIC, PRIVATE_WITH_EGRESS],
       vpc_subnets = List.product [PUBLIC, PRIVATE_WITH_EGRESS]
                       (take 2 (env_availability_zones kw)),
       vpc_cidr_block = ''10.0.0.0/16''\<rparr>]"
proof -
  obtain z zs where "env_availability_zones kw = z # zs"
    using built_only_with_zones [OF assms] by (cases "env_availability_zones kw") auto
  from CdkProjectStack_value [OF this, of scope cid] assms this show ?thesis
    by auto
qed

lemma stack_security_groups_value:
  assumes "CdkProjectStack scope cid kw = Inr st"
  shows "stack_security_groups st =
     [\<lparr>sg_id = ''InstanceSecurityGroup'', sg_vpc = ''Vpc'',
       sg_description = ''Allow SSH access'', allow_all_outbound = True,
       ingress_rules = [\<lparr>peer = CidrIPv4 ''0.0.0.0/0'', connection = tcp 22,
                          rule_description = ''allow SSH''\<rparr>]\<rparr>,
      \<lparr>sg_id = ''RdsSecurityGroup'', sg_vpc = ''Vpc'',
       sg_description = ''Allow database access'', allow_all_outbound = True,
       ingress_rules = [\<lparr>peer = SecurityGroupPeer ''InstanceSecurityGroup'',
                          connection = tcp 3306,
                          rule_description = ''Allow MySQL access from EC2 instance''\<rparr>]\<rparr>]"
proof -
  obtain z zs where "env_availability_zones kw = z # zs"
    using built_only_with_zones [OF assms] by (cases "env_availability_zones kw") auto
  from CdkProjectStack_value [OF this, of scope cid] assms this show ?thesis
    by auto
qed

lemma stack_instances_value:
  assumes "CdkProjectStack scope cid kw = Inr st"
  shows "map security_group (stack_instances st) = [''InstanceSecurityGroup'']"
proof -
  obtain z zs where "env_availability_zones kw = z # zs"
    using built_only_with_zones [OF assms] by (cases "env_availability_zones kw") auto
  from CdkProjectStack_value [OF this, of scope cid] assms this show ?thesis
    by auto
qed

lemma stack_database_instances_value:
  assumes "CdkProjectStack scope cid kw = Inr st"
  shows "stack_database_instances st =
     [\<lparr>db_id = ''RdsInstance'', engine = Mysql VER_8_0_43, db_instance_type = ''t3.micro'',
       db_vpc = ''Vpc'', security_groups = [''RdsSecurityGroup''], multi_az = False,
       allocated_storage = 20, storage_type = GP2, deletion_protection = False,
       removal_policy = DESTROY,
       instance_identifier = name_text (physical_name kw ''RdsInstance''),
       instance_arn = format_db_arn kw (name_text (physical_name kw ''RdsInstance'')),
       db_instance_endpoint_address = attribute_value kw ''RdsInstance'' ''Endpoint.Address''\<rparr>]"
proof -
  obtain z zs where "env_availability_zones kw = z # zs"
    using built_only_with_zones [OF assms] by (cases "env_availability_zones kw") auto
  from CdkProjectStack_value [OF this, of scope cid] assms this show ?thesis
    by auto
qed

lemma stack_roles_value:
  assumes "CdkProjectStack scope cid kw = Inr st"
  shows "stack_roles st =
     [\<lparr>role_id = ''Ec2Instance/InstanceRole'',
       assumed_by = ServicePrincipal ''ec2.amazonaws.com'',
       policy_statements = [],
       role_arn = attribute_value kw ''Ec2Instance/InstanceRole'' ''Arn''\<rparr>,
      \<lparr>role_id = ''SchedulerRole'', assumed_by = ServicePrincipal ''scheduler.amazonaws.com'',
       policy_statements =
         [\<lparr>actions = [''rds:StartDBInstance'', ''rds:StopDBInstance''],
           resources = [format_db_arn kw (name_text (physical_name kw ''RdsInstance''))]\<rparr>],
       role_arn = attribute_value kw ''SchedulerRole'' ''Arn''\<rparr>]"
proof -
  obtain z zs where "env_availability_zones kw = z # zs"
    using built_only_with_zones [OF assms] by (cases "env_availability_zones kw") auto
  from CdkProjectStack_value [OF this, of scope cid] assms this show ?thesis
    by auto
qed

lemma stack_schedules_value:
  assumes "CdkProjectStack scope cid kw = Inr st"
  shows "stack_schedules st =
     [\<lparr>schedule_id = ''StopRdsSchedule'', flexible_time_window = \<lparr>mode = ''OFF''\<rparr>,
       schedule_expression = ''cron(30 6 * * ? *)'',
       target = \<lparr>arn = ''arn:aws:scheduler:::aws-sdk:rds:stopDBInstance'',
                 target_role_arn = attribute_value kw ''SchedulerRole'' ''Arn'',
                 input = format_input (name_text (physical_name kw ''RdsInstance''))\<rparr>,
       description = ''Stops RDS instance at 6 PM UTC''\<rparr>,
      \<lparr>schedule_id = ''StartRdsSchedule'', flexible_time_window = \<lparr>mode = ''OFF''\<rparr>,
       schedule_expression = ''cron(30 22 ? * MON-FRI *)'',
       target = \<lparr>arn = ''arn:aws:scheduler:::aws-sdk:rds:startDBInstance'',
                 target_role_arn = attribute_value kw ''SchedulerRole'' ''Arn'',
                 input = format_input (name_text (physical_name kw ''RdsInstance''))\<rparr>,
       description = ''Starts RDS instance at 8 AM UTC (Mon-Fri)''\<rparr>]"
proof -
  obtain z zs where "env_availability_zones kw = z # zs"
    using built_only_with_zones [OF assms] by (cases "env_availability_zones kw") auto
  from CdkProjectStack_value [OF this, of scope cid] assms this show ?thesis
    by auto
qed

lemma database_groups_value:
  assumes "CdkProjectStack scope cid kw = Inr st"
  shows "database_security_groups st =
     [\<lparr>sg_id = ''RdsSecurityGroup'', sg_vpc = ''Vpc'',
       sg_description = ''Allow database access'', allow_all_outbound = True,
       ingress_rules = [\<lparr>peer = SecurityGroupPeer ''InstanceSecurityGroup'',
                          connection = tcp 3306,
                          rule_description = ''Allow MySQL access from EC2 instance''\<rparr>]\<rparr>]"
  by (simp add: database_security_groups_def stack_security_groups_value [OF assms]
      stack_database_instances_value [OF assms])

lemma compute_groups_value:
  assumes "CdkProjectStack scope cid kw = Inr st"
  shows "compute_security_groups st =
     [\<lparr>sg_id = ''InstanceSecurityGroup'', sg_vpc = ''Vpc'',
       sg_description = ''Allow SSH access'', allow_all_outbound = True,
       ingress_rules = [\<lparr>peer = CidrIPv4 ''0.0.0.0/0'', connection = tcp 22,
                          rule_description = ''allow SSH''\<rparr>]\<rparr>]"
proof -
  obtain z zs where "env_availability_zones kw = z # zs"
    using built_only_with_zones [OF assms] by (cases "env_availability_zones kw") auto
  from CdkProjectStack_value [OF this, of scope cid] assms show ?thesis
    by (auto simp: compute_security_groups_def)
qed

lemma schedule_inputs_value:
  assumes "CdkProjectStack scope cid kw = Inr st"
  shows "schedule_inputs st =
     [format_input (name_text (physical_name kw ''RdsInstance'')),
      format_input (name_text (physical_name kw ''RdsInstance''))]"
  by (simp add: schedule_inputs_def stack_schedules_value [OF assms])

lemma networks_value:
  "networks (CdkProjectStack scope cid kw) =
     (if env_availability_zones kw = [] then []
      else [\<lparr>vpc_id = ''Vpc'', max_azs = 2,
             vpc_availability_zones = take 2 (env_availability_zones kw),
             subnet_configuration = [PUBLIC, PRIVATE_WITH_EGRESS],
             vpc_subnets = List.product [PUBLIC, PRIVATE_WITH_EGRESS]
                             (take 2 (env_availability_zones kw)),
             vpc_cidr_block = ''10.0.0.0/16''\<rparr>])"
proof (cases "CdkProjectStack scope cid kw")
  case (Inl raised)
  with raised_only_without_zones [OF Inl] show ?thesis by (simp add: networks_def)
next
  case (Inr st)
  with built_only_with_zones [OF Inr] stack_vpcs_value [OF Inr] show ?thesis
    by (simp add: networks_def)
qed


section \<open>Traffic policies\<close>

text \<open>
  Every statement below is about a run of the constructor: it raises exactly when the
  environment offers no zone, and otherwise builds the stack the statement describes.
\<close>

text \<open>
  C1. The ingress rules of the security group attached to the database are exactly one rule:
  its source is the security group of the compute instance and it admits TCP on port 3306.
  No rule of the group has an address range as its source, none is on port 5432, and the
  rule the source keeps commented out is not among them.
\<close>

theorem database_ingress_only_from_compute:
  "(case CdkProjectStack scope cid kw of
     Inl raised \<Rightarrow> raised = NoSubnets ''Ec2Instance'' \<and> env_availability_zones kw = []
   | Inr st \<Rightarrow>
       env_availability_zones kw \<noteq> []
       \<and> database_ingress st =
           [\<lparr>peer = SecurityGroupPeer ''InstanceSecurityGroup'',
             connection = \<lparr>protocol = TCP, from_port = 3306, to_port = 3306\<rparr>,
             rule_description = ''Allow MySQL access from EC2 instance''\<rparr>]
       \<and> map sg_id (compute_security_groups st) = [''InstanceSecurityGroup'']
       \<and> filter (\<lambda>r. is_cidr (peer r)) (database_ingress st) = []
       \<and> filter (\<lambda>r. from_port (connection r) = 5432 \<or> to_port (connection r) = 5432)
            (database_ingress st) = []
       \<and> map vpc_wide_rule (stack_vpcs st)
           = [\<lparr>peer = CidrIPv4 ''10.0.0.0/16'',
               connection = \<lparr>protocol = TCP, from_port = 5432, to_port = 5432\<rparr>,
               rule_description = ''Allow connection from within VPC''\<rparr>]
       \<and> filter (\<lambda>r. r \<in> set (map vpc_wide_rule (stack_vpcs st))) (database_ingress st) = [])"
proof (cases "CdkProjectStack scope cid kw")
  case (Inl raised)
  with raised_only_without_zones [OF Inl] show ?thesis by simp
next
  case (Inr st)
  show ?thesis
    unfolding Inr using built_only_with_zones [OF Inr]
    by (simp add: database_ingress_def database_groups_value [OF Inr]
        compute_groups_value [OF Inr] stack_vpcs_value [OF Inr] vpc_wide_rule_def ipv4_def
        tcp_def)
qed

text \<open>
  C8. The security group of the compute instance has an ingress rule that admits TCP on
  port 22 from any IPv4 address, 0.0.0.0/0.
\<close>

theorem compute_ingress_ssh_from_anywhere:
  "(case CdkProjectStack scope cid kw of
     Inl raised \<Rightarrow> raised = NoSubnets ''Ec2Instance'' \<and> env_availability_zones kw = []
   | Inr st \<Rightarrow>
       env_availability_zones kw \<noteq> []
       \<and> compute_ingress st =
           [\<lparr>peer = any_ipv4, connection = tcp 22, rule_description = ''allow SSH''\<rparr>]
       \<and> any_ipv4 = CidrIPv4 ''0.0.0.0/0''
       \<and> tcp 22 = \<lparr>protocol = TCP, from_port = 22, to_port = 22\<rparr>
       \<and> map security_group (stack_instances st) = map sg_id (compute_security_groups st))"
proof (cases "CdkProjectStack scope cid kw")
  case (Inl raised)
  with raised_only_without_zones [OF Inl] show ?thesis by simp
next
  case (Inr st)
  show ?thesis
    unfolding Inr using built_only_with_zones [OF Inr]
    by (simp add: compute_ingress_def compute_groups_value [OF Inr]
        stack_instances_value [OF Inr] any_ipv4_def tcp_def)
qed

section \<open>The database instance\<close>



section \<open>The automation identity\<close>

lemma format_db_arn_not_wildcard: "format_db_arn e ident \<noteq> ''*''"
  by (simp add: format_db_arn_def)

text \<open>
  C2. The automation identity is the role \<open>SchedulerRole\<close>, the one both schedules act
  through. Its only trusted principal is the service principal \<open>scheduler.amazonaws.com\<close>.
  It has exactly one policy statement; the actions of the statement are
  \<open>rds:StartDBInstance\<close> and \<open>rds:StopDBInstance\<close>, and its resources are the one ARN of the
  database instance of the stack, which is not the wildcard. (The stack has one other role,
  the one of the compute instance.)
\<close>

theorem scheduler_role_least_privilege:
  "(case CdkProjectStack scope cid kw of
     Inl raised \<Rightarrow> raised = NoSubnets ''Ec2Instance'' \<and> env_availability_zones kw = []
   | Inr st \<Rightarrow>
       env_availability_zones kw \<noteq> []
       \<and> map role_id (stack_roles st) = [''Ec2Instance/InstanceRole'', ''SchedulerRole'']
       \<and> map assumed_by (scheduler_roles st) = [ServicePrincipal ''scheduler.amazonaws.com'']
       \<and> map policy_statements (scheduler_roles st)
           = [[\<lparr>actions = [''rds:StartDBInstance'', ''rds:StopDBInstance''],
                resources = map instance_arn (stack_database_instances st)\<rparr>]]
       \<and> map instance_arn (stack_database_instances st)
           = [format_db_arn kw (name_text (physical_name kw ''RdsInstance''))]
       \<and> filter (\<lambda>r. r = ''*'')
            (concat (map resources (concat (map policy_statements (scheduler_roles st))))) = []
       \<and> schedule_role_arns st = concat (map (\<lambda>r. [role_arn r, role_arn r]) (scheduler_roles st)))"
proof (cases "CdkProjectStack scope cid kw")
  case (Inl raised)
  with raised_only_without_zones [OF Inl] show ?thesis by simp
next
  case (Inr st)
  show ?thesis
    unfolding Inr using built_only_with_zones [OF Inr]
    by (simp add: scheduler_roles_def schedule_role_arns_def stack_roles_value [OF Inr]
        stack_database_instances_value [OF Inr] stack_schedules_value [OF Inr]
        format_db_arn_not_wildcard)
qed

section \<open>The schedules\<close>

lemma embedded_identifier_format_input: "embedded_identifier (format_input ident) = Some ident"
  by (simp add: embedded_identifier_def format_input_def Let_def)

text \<open>
  C3. The identifier carried by the payload of the stop schedule, the identifier carried by
  the payload of the start schedule, and the identifier of the one database instance of the
  stack are the same.
\<close>

theorem schedules_target_the_stack_database:
  "(case CdkProjectStack scope cid kw of
     Inl raised \<Rightarrow> raised = NoSubnets ''Ec2Instance'' \<and> env_availability_zones kw = []
   | Inr st \<Rightarrow>
       env_availability_zones kw \<noteq> []
       \<and> map schedule_id (stack_schedules st) = [''StopRdsSchedule'', ''StartRdsSchedule'']
       \<and> map embedded_identifier (schedule_inputs st)
           = [Some (name_text (physical_name kw ''RdsInstance'')),
              Some (name_text (physical_name kw ''RdsInstance''))]
       \<and> map instance_identifier (stack_database_instances st)
           = [name_text (physical_name kw ''RdsInstance'')])"
proof (cases "CdkProjectStack scope cid kw")
  case (Inl raised)
  with raised_only_without_zones [OF Inl] show ?thesis by simp
next
  case (Inr st)
  show ?thesis
    unfolding Inr using built_only_with_zones [OF Inr]
    by (simp add: schedule_inputs_value [OF Inr] embedded_identifier_format_input
        stack_schedules_value [OF Inr] stack_database_instances_value [OF Inr])
qed

lemma parse_cron_stop:
  "parse_cron ''cron(30 6 * * ? *)'' = Some [Exactly 30, Exactly 6, Every, Every, Every, Every]"
  by (simp add: parse_cron_def parse_field_def parse_value_def parse_nat_def digit_of_def
      weekday_names_def)

lemma parse_cron_start:
  "parse_cron ''cron(30 22 ? * MON-FRI *)''
     = Some [Exactly 30, Exactly 22, Every, Every, Between 2 6, Every]"
  by (simp add: parse_cron_def parse_field_def parse_value_def parse_nat_def digit_of_def
      weekday_names_def)

lemma filter_the_one:
  "distinct xs \<Longrightarrow> a \<in> set xs \<Longrightarrow> filter (\<lambda>x. x = a) xs = [a]"
proof (induction xs)
  case Nil
  then show ?case by simp
next
  case (Cons x xs)
  show ?case
  proof (cases "x = a")
    case True
    with Cons.prems have "a \<notin> set xs" by simp
    then have "filter (\<lambda>x. x = a) xs = []" by (auto simp: filter_empty_conv)
    with True show ?thesis by simp
  next
    case False
    with Cons show ?thesis by simp
  qed
qed

lemma minutes_of_day_distinct: "distinct (List.product [0..<24] [0..<(60::nat)])"
  by (simp add: distinct_product)

lemma workday_number: "workday w = (2 \<le> weekday_number w \<and> weekday_number w \<le> 6)"
  by (cases w) simp_all

lemma firings_stop: "firings ''cron(30 6 * * ? *)'' d = [(6, 30)]"
proof -
  have "fires ''cron(30 6 * * ? *)'' d = (\<lambda>t. t = (6, 30))"
    by (auto simp: fires_def parse_cron_stop fun_eq_iff)
  then show ?thesis
    unfolding firings_def by (simp add: filter_the_one minutes_of_day_distinct)
qed

lemma firings_start:
  "firings ''cron(30 22 ? * MON-FRI *)'' d = (if workday (day_of_week d) then [(22, 30)] else [])"
proof (cases "workday (day_of_week d)")
  case True
  then have "fires ''cron(30 22 ? * MON-FRI *)'' d = (\<lambda>t. t = (22, 30))"
    by (auto simp: fires_def parse_cron_start workday_number fun_eq_iff)
  with True show ?thesis
    unfolding firings_def by (simp add: filter_the_one minutes_of_day_distinct)
next
  case False
  then have "fires ''cron(30 22 ? * MON-FRI *)'' d = (\<lambda>t. False)"
    by (auto simp: fires_def parse_cron_start workday_number fun_eq_iff)
  with False show ?thesis
    unfolding firings_def by simp
qed

text \<open>
  C4. The trigger expression of the stop schedule is \<open>cron(30 6 * * ? *)\<close> and that of the
  start schedule is \<open>cron(30 22 ? * MON-FRI *)\<close>. On every calendar day the stop expression
  fires at exactly one of the day's minutes (06:30). The start expression fires at exactly
  one minute (22:30) of every day from Monday to Friday, and at none on a Saturday or a
  Sunday.
\<close>

theorem schedule_expressions_fire_daily_and_on_workdays:
  "(case CdkProjectStack scope cid kw of
     Inl raised \<Rightarrow> raised = NoSubnets ''Ec2Instance'' \<and> env_availability_zones kw = []
   | Inr st \<Rightarrow>
       env_availability_zones kw \<noteq> []
       \<and> map schedule_expression (stack_schedules st)
           = [''cron(30 6 * * ? *)'', ''cron(30 22 ? * MON-FRI *)'']
       \<and> map (\<lambda>s. firings (schedule_expression s) d) (stack_schedules st)
           = [[(6, 30)], if workday (day_of_week d) then [(22, 30)] else []]
       \<and> map (\<lambda>s. length (firings (schedule_expression s) d)) (stack_schedules st)
           = [1, if day_of_week d = SAT \<or> day_of_week d = SUN then 0 else 1])"
proof (cases "CdkProjectStack scope cid kw")
  case (Inl raised)
  with raised_only_without_zones [OF Inl] show ?thesis by simp
next
  case (Inr st)
  have "workday (day_of_week d) = (\<not> (day_of_week d = SAT \<or> day_of_week d = SUN))"
    by (cases "day_of_week d") simp_all
  then show ?thesis
    unfolding Inr using built_only_with_zones [OF Inr]
    by (simp add: stack_schedules_value [OF Inr] firings_stop firings_start)
qed

lemma described_time_start:
  "described_time ''Starts RDS instance at 8 AM UTC (Mon-Fri)'' = Some (8, 0)"
  by (simp add: described_time_def parse_nat_def digit_of_def)

text \<open>
  C9. The description of the start schedule is the text
  \<open>Starts RDS instance at 8 AM UTC (Mon-Fri)\<close>, which names 08:00, while its expression
  \<open>cron(30 22 ? * MON-FRI *)\<close> fires at 22:30: in every stack the declaration builds, and on
  every day, the start schedule never fires at the time its description names.
\<close>

theorem start_description_names_another_time:
  "(case CdkProjectStack scope cid kw of
     Inl raised \<Rightarrow> raised = NoSubnets ''Ec2Instance'' \<and> env_availability_zones kw = []
   | Inr st \<Rightarrow>
       env_availability_zones kw \<noteq> []
       \<and> described_and_fired ''StartRdsSchedule'' d st
           = [(''Starts RDS instance at 8 AM UTC (Mon-Fri)'', Some (8, 0),
               if workday (day_of_week d) then [(22, 30)] else [])]
       \<and> map schedule_expression
            (filter (\<lambda>s. schedule_id s = ''StartRdsSchedule'') (stack_schedules st))
           = [''cron(30 22 ? * MON-FRI *)'']
       \<and> fired_as_described ''StartRdsSchedule'' d st = [])"
proof (cases "CdkProjectStack scope cid kw")
  case (Inl raised)
  with raised_only_without_zones [OF Inl] show ?thesis by simp
next
  case (Inr st)
  show ?thesis
    unfolding Inr using built_only_with_zones [OF Inr]
    by (simp add: described_and_fired_def fired_as_described_def
        stack_schedules_value [OF Inr] described_time_start firings_start)
qed

section \<open>The network\<close>

text \<open>
  C7, as the code has it. In every environment the stack is built for, the stack declares
  exactly one virtual network, and that network contains both a public and a private
  subnet tier. It is declared with \<open>max_azs = 2\<close> and spans the first two zones the
  environment offers: it spans at least two zones exactly when the environment offers at
  least two.
\<close>

theorem one_network_of_at_most_two_zones:
  "(case CdkProjectStack scope cid kw of
     Inl raised \<Rightarrow> raised = NoSubnets ''Ec2Instance'' \<and> env_availability_zones kw = []
   | Inr st \<Rightarrow>
       env_availability_zones kw \<noteq> []
       \<and> map vpc_id (stack_vpcs st) = [''Vpc'']
       \<and> map max_azs (stack_vpcs st) = [2]
       \<and> map vpc_availability_zones (stack_vpcs st) = [take 2 (env_availability_zones kw)]
       \<and> map zone_count (stack_vpcs st) = [min 2 (length (env_availability_zones kw))]
       \<and> map spans_two_zones (stack_vpcs st) = [2 \<le> length (env_availability_zones kw)]
       \<and> map (has_tier PUBLIC) (stack_vpcs st) = [True]
       \<and> map (has_tier PRIVATE_WITH_EGRESS) (stack_vpcs st) = [True])"
proof (cases "CdkProjectStack scope cid kw")
  case (Inl raised)
  with raised_only_without_zones [OF Inl] show ?thesis by simp
next
  case (Inr st)
  obtain z zs where zones: "env_availability_zones kw = z # zs"
    using built_only_with_zones [OF Inr] by (cases "env_availability_zones kw") auto
  show ?thesis
    unfolding Inr
    by (auto simp: stack_vpcs_value [OF Inr] zones zone_count_def spans_two_zones_def
        has_tier_def min_def)
qed

text \<open>In an environment that offers a single zone the stack is built and its network
  spans one zone, not two.\<close>

theorem single_zone_network_counterexample:
  "map zone_count (networks (CdkProjectStack ''App'' ''CdkProjectStack'' single_zone_env)) = [1]
   \<and> map spans_two_zones
         (networks (CdkProjectStack ''App'' ''CdkProjectStack'' single_zone_env)) = [False]"
  by (simp add: networks_value spans_two_zones_def zone_count_def single_zone_env_def
      example_env_def)

section \<open>The payloads\<close>

lemma name_char_plain: "name_char c \<Longrightarrow> plain c"
  by (auto simp: name_char_def plain_def dquote_def backslash_def is_control_def)

lemma name_text_plain: "list_all plain (name_text n)"
proof -
  have "list_all name_char (name_text n)"
    using name_text [of n] by simp
  then show ?thesis
    by (simp add: list_all_iff name_char_plain)
qed

lemma json_chars_plain:
  "list_all plain s \<Longrightarrow> json_chars (s @ dquote # r) = Some (s, r)"
  by (induction s) (simp_all add: plain_def)

lemma json_members_payload:
  assumes "list_all plain ident"
  shows "json_members (Suc n) (tl (format_input ident))
           = Some ([(''DbInstanceIdentifier'', ident)], [])"
proof -
  have val: "json_chars (ident @ CHR 0x22 # r) = Some (ident, r)" for r
    using json_chars_plain [OF assms] by (simp add: dquote_def)
  show ?thesis
    by (simp add: format_input_def payload_prefix_def payload_suffix_def json_string_def val
        is_ws_def dquote_def backslash_def is_control_def)
qed

lemma parse_format_input:
  assumes "list_all plain ident"
  shows "parse_json (format_input ident) = Some [(''DbInstanceIdentifier'', ident)]"
proof -
  define body where "body = tl (tl (format_input ident))"
  have fi: "format_input ident = CHR ''{'' # CHR 0x22 # body"
    by (simp add: body_def format_input_def payload_prefix_def)
  have mem: "json_members (Suc n) (CHR 0x22 # body)
               = Some ([(''DbInstanceIdentifier'', ident)], [])" for n
    using json_members_payload [OF assms, of n] by (simp add: fi)
  show ?thesis
    unfolding parse_json_def fi by (simp add: is_ws_def mem del: json_members.simps)
qed

lemma format_input_text:
  \<open>format_input ident = ''{"DbInstanceIdentifier": "'' @ ident @ ''"}''\<close>
  by (simp add: format_input_def payload_prefix_def payload_suffix_def)

text \<open>
  C5. The stop schedule is sent to the provider action \<open>stopDBInstance\<close> and the start
  schedule to \<open>startDBInstance\<close>. The payload of each is the text
  \<^verbatim>\<open>{"DbInstanceIdentifier": "<identifier>"}\<close> with the identifier of the database of the
  stack, and it reads as the JSON object with the one key \<open>DbInstanceIdentifier\<close>, exactly
  so spelled, mapped to that identifier.
\<close>

theorem schedule_payload_is_single_key_object:
  \<open>(case CdkProjectStack scope cid kw of
     Inl raised \<Rightarrow> raised = NoSubnets ''Ec2Instance'' \<and> env_availability_zones kw = []
   | Inr st \<Rightarrow>
       env_availability_zones kw \<noteq> []
       \<and> schedule_actions st
           = [''arn:aws:scheduler:::aws-sdk:rds:stopDBInstance'',
              ''arn:aws:scheduler:::aws-sdk:rds:startDBInstance'']
       \<and> schedule_inputs st
           = [''{"DbInstanceIdentifier": "'' @ name_text (physical_name kw ''RdsInstance'') @ ''"}'',
              ''{"DbInstanceIdentifier": "'' @ name_text (physical_name kw ''RdsInstance'') @ ''"}'']
       \<and> map instance_identifier (stack_database_instances st)
           = [name_text (physical_name kw ''RdsInstance'')]
       \<and> parsed_inputs st
           = [Some [(''DbInstanceIdentifier'', name_text (physical_name kw ''RdsInstance''))],
              Some [(''DbInstanceIdentifier'', name_text (physical_name kw ''RdsInstance''))]])\<close>
proof (cases "CdkProjectStack scope cid kw")
  case (Inl raised)
  with raised_only_without_zones [OF Inl] show ?thesis by simp
next
  case (Inr st)
  have "parsed_inputs st
          = [Some [(''DbInstanceIdentifier'', name_text (physical_name kw ''RdsInstance''))],
             Some [(''DbInstanceIdentifier'', name_text (physical_name kw ''RdsInstance''))]]"
    by (simp add: parsed_inputs_def schedule_inputs_value [OF Inr] parse_format_input
        name_text_plain)
  moreover have "schedule_actions st
          = [''arn:aws:scheduler:::aws-sdk:rds:stopDBInstance'',
             ''arn:aws:scheduler:::aws-sdk:rds:startDBInstance'']"
    by (simp add: schedule_actions_def stack_schedules_value [OF Inr])
  moreover have "map instance_identifier (stack_database_instances st)
          = [name_text (physical_name kw ''RdsInstance'')]"
    by (simp add: stack_database_instances_value [OF Inr])
  ultimately show ?thesis
    unfolding Inr using built_only_with_zones [OF Inr]
    by (simp add: schedule_inputs_value [OF Inr] format_input_text)
qed


end
